theory Spec2Isabelle
  imports Main
begin

section \<open>Strings of the source language\<close>

text \<open>
  A JavaScript string is modelled as a \<^typ>\<open>string\<close>: each \<^typ>\<open>char\<close> stands for
  one code unit below 256. A value that may be \<open>undefined\<close> is an option, \<open>None\<close>
  being \<open>undefined\<close>.
\<close>

text \<open>
  The white space and line terminators that \<open>String.prototype.trim\<close> and \<open>parseInt\<close>
  strip, as far as they lie below 256: TAB, LF, VT, FF, CR, SP and NBSP.
\<close>

definition isWhiteSpace :: "char \<Rightarrow> bool" where
  "isWhiteSpace c \<longleftrightarrow>
     c \<in> {CHR 0x09, CHR 0x0A, CHR 0x0B, CHR 0x0C, CHR 0x0D, CHR 0x20, CHR 0xA0}"

text \<open>\<open>s.trim()\<close>: white space removed at both ends.\<close>

definition trim :: "string \<Rightarrow> string" where
  "trim s = rev (dropWhile isWhiteSpace (rev (dropWhile isWhiteSpace s)))"

text \<open>
  \<open>!v\<close> for a value that is a string or \<open>undefined\<close>: both \<open>undefined\<close> and the empty
  string are falsy.
\<close>

fun falsy :: "string option \<Rightarrow> bool" where
  "falsy None = True"
| "falsy (Some s) = (s = [])"

text \<open>
  \<open>s.split(',')\<close>: the pieces between the commas, in order. A comma starts a new piece;
  any other character joins the first piece of the rest. A string without a comma is one
  piece, so the result is never empty and the case of no piece does not arise.
\<close>

fun split_comma :: "string \<Rightarrow> string list" where
  "split_comma [] = [[]]"
| "split_comma (c # cs) =
     (if c = CHR '','' then [] # split_comma cs
      else (case split_comma cs of [] \<Rightarrow> [[c]] | p # ps \<Rightarrow> (c # p) # ps))"

subsection \<open>\<open>parseInt\<close> with one argument\<close>

text \<open>The value of a character as a digit: \<open>0-9\<close>, then letters of either case from 10.\<close>

definition digitVal :: "char \<Rightarrow> nat option" where
  "digitVal c =
     (let n = (of_char c :: nat) in
      if 48 \<le> n \<and> n \<le> 57 then Some (n - 48)
      else if 97 \<le> n \<and> n \<le> 122 then Some (n - 87)
      else if 65 \<le> n \<and> n \<le> 90 then Some (n - 55)
      else None)"

definition radixDigit :: "nat \<Rightarrow> char \<Rightarrow> bool" where
  "radixDigit R c = (case digitVal c of None \<Rightarrow> False | Some d \<Rightarrow> d < R)"

definition mathInt :: "nat \<Rightarrow> string \<Rightarrow> nat" where
  "mathInt R Z = foldl (\<lambda>acc c. case digitVal c of None \<Rightarrow> acc | Some d \<Rightarrow> acc * R + d) 0 Z"

text \<open>
  \<open>parseInt(string)\<close> of ECMAScript with the radix left out: leading white space is
  skipped, one sign is read, a prefix \<open>0x\<close> or \<open>0X\<close> selects radix 16 (radix 10
  otherwise), and the longest run of digits of that radix is the number; with no digit the
  result is \<open>NaN\<close>, here \<open>None\<close>. The source only compares the result with integers below
  2^53, and rounding to a double is monotone and exact on them, so the exact integer gives
  the same comparisons.
\<close>

definition parseIntStr :: "string \<Rightarrow> int option" where
  "parseIntStr s =
     (let S = dropWhile isWhiteSpace s;
          neg = (S \<noteq> [] \<and> hd S = CHR ''-'');
          S1 = (if S \<noteq> [] \<and> (hd S = CHR ''+'' \<or> hd S = CHR ''-'') then tl S else S);
          hex = (take 2 S1 = ''0x'' \<or> take 2 S1 = ''0X'');
          R = (if hex then 16 else 10);
          S2 = (if hex then drop 2 S1 else S1);
          Z = takeWhile (radixDigit R) S2
      in if Z = [] then None
         else Some ((if neg then - 1 else 1) * int (mathInt R Z)))"

text \<open>An argument that is \<open>undefined\<close> is first converted to the string \<open>undefined\<close>.\<close>

fun parseInt :: "string option \<Rightarrow> int option" where
  "parseInt None = parseIntStr ''undefined''"
| "parseInt (Some s) = parseIntStr s"

section \<open>Movie records\<close>

text \<open>
  A JSON object of the metadata API, read through the fields the source reads. Each field
  is a string or absent.
\<close>

record movie =
  Response :: "string option"
  imdbID :: "string option"
  Title :: "string option"
  Year :: "string option"
  Poster :: "string option"

section \<open>The year filter\<close>

text \<open>The body of the callback of \<open>filterMoviesByYear\<close>: the parse, then the switch.\<close>

definition yearMatches :: "string \<Rightarrow> movie \<Rightarrow> bool" where
  "yearMatches yearFilter m =
     (case parseInt (Year m) of
        None \<Rightarrow> False
      | Some movieYear \<Rightarrow>
          (if yearFilter = ''2025'' then movieYear = 2025
           else if yearFilter = ''2024'' then movieYear = 2024
           else if yearFilter = ''2023'' then movieYear = 2023
           else if yearFilter = ''2022'' then movieYear = 2022
           else if yearFilter = ''2021'' then movieYear = 2021
           else if yearFilter = ''2020'' then movieYear = 2020
           else if yearFilter = ''2010s'' then movieYear \<ge> 2010 \<and> movieYear \<le> 2019
           else if yearFilter = ''2000s'' then movieYear \<ge> 2000 \<and> movieYear \<le> 2009
           else if yearFilter = ''1990s'' then movieYear \<ge> 1990 \<and> movieYear \<le> 1999
           else if yearFilter = ''1980s'' then movieYear \<ge> 1980 \<and> movieYear \<le> 1989
           else if yearFilter = ''classic'' then movieYear < 1980
           else True))"

definition filterMoviesByYear :: "movie list \<Rightarrow> string \<Rightarrow> movie list" where
  "filterMoviesByYear movies yearFilter =
     (if yearFilter = ''all'' then movies else filter (yearMatches yearFilter) movies)"

section \<open>The two external services\<close>

text \<open>
  A thrown value is read only through its \<open>message\<close>; the empty message also stands for
  a value without one (both are falsy in \<open>err.message || ...\<close>).
\<close>

datatype error = Error (message: string)

text \<open>
  What \<open>await fetch(...)\<close> followed by \<open>await response.json()\<close> can give: the fetch
  rejects; or it resolves with a response whose \<open>ok\<close> flag is the boolean, and whose
  \<open>json()\<close> either rejects (\<open>BadJson\<close>) or yields the parsed body.
\<close>

datatype 'a body = BadJson string | Json 'a

datatype 'a fetch_result = Rejected string | Fetched bool "'a body"

record filters =
  language :: string
  genre :: string
  year :: string

text \<open>
  The requests to the metadata API, by the query the URL carries: \<open>t=\<close> (exact title),
  \<open>s=...&type=movie\<close> (keyword search of line 135), \<open>i=\<close> (detail by id; an id that is
  \<open>undefined\<close> is interpolated as such) and \<open>s=\<close> without a type (line 178).
\<close>

datatype omdb_request =
  ByTitle string
| BySearchMovie string
| ById "string option"
| BySearch string

text \<open>The body of a keyword search: its \<open>Response\<close> flag and its \<open>Search\<close> array.\<close>

record search_data =
  SearchResponse :: "string option"
  Search :: "movie list option"

text \<open>
  The environment of one request: the two keys of \<open>import.meta.env\<close> and the replies of
  the two services. The generation API is asked once, with a prompt built from the input
  and the filters; its body is read only at \<open>candidates?.[0]?.content?.parts?.[0]?.text\<close>,
  which is the \<open>string option\<close>. The metadata API may answer the same request differently
  at different times: its reply depends on the number of metadata requests issued before.
\<close>

record env =
  GEMINI_API_KEY :: "string option"
  OMDB_API_KEY :: "string option"
  gemini :: "string \<Rightarrow> filters \<Rightarrow> string option fetch_result"
  omdb_lookup :: "nat \<Rightarrow> omdb_request \<Rightarrow> movie fetch_result"
  omdb_search :: "nat \<Rightarrow> omdb_request \<Rightarrow> search_data fetch_result"

section \<open>\<open>getAiSuggestions\<close>\<close>

datatype net_call = GeminiCall string filters | OmdbCall omdb_request

text \<open>The result, and the network calls issued.\<close>

definition getAiSuggestions :: "env \<Rightarrow> string \<Rightarrow> filters \<Rightarrow> (error + string list) \<times> net_call list" where
  "getAiSuggestions e input fs =
     (if falsy (GEMINI_API_KEY e)
      then (Inl (Error ''Gemini API key is missing. Please check your environment variables.''), [])
      else
        (case gemini e input fs of
           Rejected msg \<Rightarrow> (Inl (Error msg), [GeminiCall input fs])
         | Fetched ok b \<Rightarrow>
             if \<not> ok
             then (Inl (Error ''Failed to get suggestions from the AI service.''), [GeminiCall input fs])
             else
               (case b of
                  BadJson msg \<Rightarrow> (Inl (Error msg), [GeminiCall input fs])
                | Json txt \<Rightarrow>
                    if falsy txt
                    then (Inl (Error ''The AI returned an empty response. Please try again.''),
                          [GeminiCall input fs])
                    else
                      (case txt of
                         None \<Rightarrow> (Inl (Error ''The AI returned an empty response. Please try again.''),
                                  [GeminiCall input fs])
                       | Some t \<Rightarrow>
                           (Inr (filter (\<lambda>t. t \<noteq> []) (map trim (split_comma t))),
                            [GeminiCall input fs])))))"

section \<open>\<open>searchMoviesWithOMDb\<close>\<close>

text \<open>The local variables of the function, and the metadata requests issued so far.\<close>

record search_state =
  seenMovies :: "string option set"
  results :: "movie list"
  calls :: "omdb_request list"

definition issue :: "omdb_request \<Rightarrow> search_state \<Rightarrow> search_state" where
  "issue req s = s\<lparr>calls := calls s @ [req]\<rparr>"

definition keep :: "movie \<Rightarrow> search_state \<Rightarrow> search_state" where
  "keep m s = s\<lparr>seenMovies := insert (imdbID m) (seenMovies s), results := results s @ [m]\<rparr>"

text \<open>
  One round of the loop of lines 114-130. A rejected fetch or a rejected \<open>json()\<close> is
  caught by the inner \<open>catch\<close>, a response that is not \<open>ok\<close> is skipped by \<open>continue\<close>.
\<close>

definition titleStep :: "env \<Rightarrow> search_state \<Rightarrow> string \<Rightarrow> search_state" where
  "titleStep e s title =
     (case omdb_lookup e (length (calls s)) (ByTitle title) of
        Rejected msg \<Rightarrow> issue (ByTitle title) s
      | Fetched ok b \<Rightarrow>
          if \<not> ok then issue (ByTitle title) s
          else
            (case b of
               BadJson msg \<Rightarrow> issue (ByTitle title) s
             | Json data \<Rightarrow>
                 if Response data = Some ''True'' \<and> imdbID data \<notin> seenMovies s
                 then keep data (issue (ByTitle title) s)
                 else issue (ByTitle title) s))"

definition titleLoop :: "env \<Rightarrow> string list \<Rightarrow> search_state \<Rightarrow> search_state" where
  "titleLoop e titles s = foldl (titleStep e) s titles"

text \<open>One round of the loop of lines 140-154 over the hits of the keyword search.\<close>

definition fallbackStep :: "env \<Rightarrow> search_state \<Rightarrow> movie \<Rightarrow> search_state" where
  "fallbackStep e s hit =
     (if imdbID hit \<in> seenMovies s then s
      else
        (case omdb_lookup e (length (calls s)) (ById (imdbID hit)) of
           Rejected msg \<Rightarrow> issue (ById (imdbID hit)) s
         | Fetched ok b \<Rightarrow>
             if ok then
               (case b of
                  BadJson msg \<Rightarrow> issue (ById (imdbID hit)) s
                | Json detailData \<Rightarrow>
                    if Response detailData = Some ''True''
                    then keep detailData (issue (ById (imdbID hit)) s)
                    else issue (ById (imdbID hit)) s)
             else issue (ById (imdbID hit)) s))"

definition fallbackLoop :: "env \<Rightarrow> movie list \<Rightarrow> search_state \<Rightarrow> search_state" where
  "fallbackLoop e hits s = foldl (fallbackStep e) s hits"

text \<open>
  How a block of statements ends: it runs to its end (\<open>Normal\<close>), it returns a value, or
  it throws.
\<close>

datatype completion = Normal | Return (returned: "movie list") | Throw error

text \<open>Line 159.\<close>

definition returnFiltered :: "filters \<Rightarrow> search_state \<Rightarrow> completion \<times> search_state" where
  "returnFiltered fs s =
     (Return (filterMoviesByYear (filter (\<lambda>movie. Poster movie \<noteq> Some ''N/A'') (results s)) (year fs)), s)"

text \<open>Lines 132-157: the fallback search, run when the loop kept nothing.\<close>

definition fallbackSearch :: "env \<Rightarrow> string \<Rightarrow> filters \<Rightarrow> search_state \<Rightarrow> completion \<times> search_state" where
  "fallbackSearch e input fs s =
     (case omdb_search e (length (calls s)) (BySearchMovie input) of
        Rejected msg \<Rightarrow> (Throw (Error msg), issue (BySearchMovie input) s)
      | Fetched ok b \<Rightarrow>
          if ok then
            (case b of
               BadJson msg \<Rightarrow> (Throw (Error msg), issue (BySearchMovie input) s)
             | Json fallbackData \<Rightarrow>
                 if SearchResponse fallbackData = Some ''True'' then
                   (case Search fallbackData of
                      None \<Rightarrow> returnFiltered fs (issue (BySearchMovie input) s)
                    | Some hits \<Rightarrow>
                        returnFiltered fs (fallbackLoop e hits (issue (BySearchMovie input) s)))
                 else returnFiltered fs (issue (BySearchMovie input) s))
          else returnFiltered fs (issue (BySearchMovie input) s))"

text \<open>The \<open>try\<close> block, lines 107-159.\<close>

definition tryBlock :: "env \<Rightarrow> string list \<Rightarrow> string \<Rightarrow> filters \<Rightarrow> completion \<times> search_state" where
  "tryBlock e titles input fs =
     (let s0 = \<lparr>seenMovies = {}, results = [], calls = []\<rparr> in
      if falsy (OMDB_API_KEY e)
      then (Throw (Error ''OMDB API key is missing. Please check your environment variables.''), s0)
      else
        (let s1 = titleLoop e titles s0 in
         if length (results s1) = 0 then fallbackSearch e input fs s1
         else returnFiltered fs s1))"

text \<open>The \<open>try\<close> statement with its \<open>catch\<close>, lines 107-164.\<close>

definition tryCatch :: "env \<Rightarrow> string list \<Rightarrow> string \<Rightarrow> filters \<Rightarrow> completion \<times> search_state" where
  "tryCatch e titles input fs =
     (case tryBlock e titles input fs of
        (Throw err, s) \<Rightarrow> (Throw (Error ''Failed to search for movies. Please try again later.''), s)
      | (Return v, s) \<Rightarrow> (Return v, s)
      | (Normal, s) \<Rightarrow> (Normal, s))"

text \<open>The \<open>forEach\<close> of lines 167-172, from an empty \<open>validMovies\<close>.\<close>

definition validStep :: "search_state \<times> movie list \<Rightarrow> movie \<Rightarrow> search_state \<times> movie list" where
  "validStep sv movie =
     (if Response movie = Some ''True'' \<and> Poster movie \<noteq> Some ''N/A''
         \<and> imdbID movie \<notin> seenMovies (fst sv)
      then ((fst sv)\<lparr>seenMovies := insert (imdbID movie) (seenMovies (fst sv))\<rparr>, snd sv @ [movie])
      else sv)"

text \<open>
  Lines 165-185, the statements after the \<open>try\<close> statement. Nothing catches here: a
  rejected fetch or \<open>json()\<close> is thrown as it is, and \<open>fallbackData.Search.filter\<close> on a
  missing \<open>Search\<close> is a TypeError (its text is the engine's).
\<close>

definition trailingBlock :: "env \<Rightarrow> string \<Rightarrow> filters \<Rightarrow> search_state \<Rightarrow> completion \<times> search_state" where
  "trailingBlock e input fs s =
     (let sv = foldl validStep (s, []) (results s) in
      if length (snd sv) = 0 then
        (case omdb_search e (length (calls (fst sv))) (BySearch input) of
           Rejected msg \<Rightarrow> (Throw (Error msg), issue (BySearch input) (fst sv))
         | Fetched ok b \<Rightarrow>
             (case b of
                BadJson msg \<Rightarrow> (Throw (Error msg), issue (BySearch input) (fst sv))
              | Json fallbackData \<Rightarrow>
                  if SearchResponse fallbackData = Some ''True'' then
                    (case Search fallbackData of
                       None \<Rightarrow>
                         (Throw (Error ''Cannot read properties of undefined (reading 'filter')''),
                          issue (BySearch input) (fst sv))
                     | Some hits \<Rightarrow>
                         (Return (filterMoviesByYear (filter (\<lambda>m. Poster m \<noteq> Some ''N/A'') hits) (year fs)),
                          issue (BySearch input) (fst sv)))
                  else (Return (filterMoviesByYear [] (year fs)), issue (BySearch input) (fst sv))))
      else (Return (filterMoviesByYear (snd sv) (year fs)), fst sv))"

text \<open>
  The function body with the statements after the \<open>try\<close> statement as a parameter: they
  run when, and only when, the \<open>try\<close> statement completes normally.
\<close>

definition searchBody ::
  "(search_state \<Rightarrow> completion \<times> search_state) \<Rightarrow> env \<Rightarrow> string list \<Rightarrow> string \<Rightarrow> filters
    \<Rightarrow> completion \<times> search_state" where
  "searchBody rest e titles input fs =
     (case tryCatch e titles input fs of
        (Normal, s) \<Rightarrow> rest s
      | (Return v, s) \<Rightarrow> (Return v, s)
      | (Throw err, s) \<Rightarrow> (Throw err, s))"

text \<open>
  The function as written, lines 103-186. A completion \<open>Normal\<close> of the whole body would
  be the function returning \<open>undefined\<close>.
\<close>

definition searchMoviesWithOMDb :: "env \<Rightarrow> string list \<Rightarrow> string \<Rightarrow> filters \<Rightarrow> completion \<times> search_state" where
  "searchMoviesWithOMDb e titles input fs = searchBody (trailingBlock e input fs) e titles input fs"

text \<open>The same function with lines 165-185 deleted.\<close>

definition searchMoviesWithOMDb_trimmed ::
  "env \<Rightarrow> string list \<Rightarrow> string \<Rightarrow> filters \<Rightarrow> completion \<times> search_state" where
  "searchMoviesWithOMDb_trimmed e titles input fs = searchBody (\<lambda>s. (Normal, s)) e titles input fs"

section \<open>\<open>handleMovieSuggestion\<close>\<close>

text \<open>The component's state variables.\<close>

record app_state =
  userInput :: string
  filters :: filters
  movies :: "movie list"
  isLoading :: bool
  error :: "string option"

text \<open>\<open>err.message || 'An unknown error occurred. Please try again.'\<close>\<close>

definition errorText :: "error \<Rightarrow> string" where
  "errorText err =
     (if message err = [] then ''An unknown error occurred. Please try again.'' else message err)"

text \<open>The \<open>catch\<close> and \<open>finally\<close> of lines 55-60, on the state after lines 38-40.\<close>

definition failed :: "app_state \<Rightarrow> error \<Rightarrow> app_state" where
  "failed st err = st\<lparr>error := Some (errorText err), isLoading := False\<rparr>"

text \<open>
  The submit handler: the state after it, and the network calls it issued, in order. A
  result \<open>undefined\<close> of the search would make \<open>fetchedMovies.length\<close> a TypeError, which
  the \<open>catch\<close> reports.
\<close>

definition handleMovieSuggestion :: "env \<Rightarrow> app_state \<Rightarrow> app_state \<times> net_call list" where
  "handleMovieSuggestion e st =
     (if trim (userInput st) = []
      then (st\<lparr>error := Some ''Please describe your movie mood or scenario.''\<rparr>, [])
      else
        (let st1 = st\<lparr>isLoading := True, error := None, movies := []\<rparr> in
         case getAiSuggestions e (userInput st) (filters st) of
           (Inl err, tr) \<Rightarrow> (failed st1 err, tr)
         | (Inr suggestedTitles, tr) \<Rightarrow>
             (case searchMoviesWithOMDb e suggestedTitles (userInput st) (filters st) of
                (Throw err, s) \<Rightarrow> (failed st1 err, tr @ map OmdbCall (calls s))
              | (Normal, s) \<Rightarrow>
                  (failed st1 (Error ''Cannot read properties of undefined (reading 'length')''),
                   tr @ map OmdbCall (calls s))
              | (Return fetchedMovies, s) \<Rightarrow>
                  if length fetchedMovies > 0
                  then (st1\<lparr>movies := fetchedMovies, isLoading := False\<rparr>, tr @ map OmdbCall (calls s))
                  else (st1\<lparr>error := Some ''Couldn't find any movies matching your request. Please try a different description.'',
                             isLoading := False\<rparr>,
                        tr @ map OmdbCall (calls s)))))"

section \<open>Notions of the specification\<close>

text \<open>
  A record's year field parses as an integer that satisfies \<open>P\<close>; a year that does not
  parse satisfies nothing.
\<close>

definition parsedYearSatisfies :: "(int \<Rightarrow> bool) \<Rightarrow> movie \<Rightarrow> bool" where
  "parsedYearSatisfies P m = (case parseInt (Year m) of None \<Rightarrow> False | Some y \<Rightarrow> P y)"

text \<open>The bucket values the form offers, which are those the switch names, and \<open>all\<close>.\<close>

definition recognized :: "string \<Rightarrow> bool" where
  "recognized b \<longleftrightarrow>
     b \<in> set [''all'', ''2025'', ''2024'', ''2023'', ''2022'', ''2021'', ''2020'',
              ''2010s'', ''2000s'', ''1990s'', ''1980s'', ''classic'']"

text \<open>A found record with the given id, year and poster, for the examples.\<close>

definition sampleMovie :: "string \<Rightarrow> string \<Rightarrow> string \<Rightarrow> movie" where
  "sampleMovie i y p =
     \<lparr>Response = Some ''True'', imdbID = Some i, Title = Some ''T'', Year = Some y, Poster = Some p\<rparr>"

text \<open>The text of the generation API joined back from its pieces, a comma between two.\<close>

fun joinComma :: "string list \<Rightarrow> string" where
  "joinComma [] = []"
| "joinComma [p] = p"
| "joinComma (p # q # ps) = p @ CHR '','' # joinComma (q # ps)"

text \<open>A metadata request that is a keyword search (\<open>s=\<close>).\<close>

fun isKeywordSearch :: "omdb_request \<Rightarrow> bool" where
  "isKeywordSearch (BySearchMovie q) = True"
| "isKeywordSearch (BySearch q) = True"
| "isKeywordSearch (ByTitle t) = False"
| "isKeywordSearch (ById i) = False"

text \<open>The state of \<open>searchMoviesWithOMDb\<close> at line 106.\<close>

definition initialSearch :: search_state where
  "initialSearch = \<lparr>seenMovies = {}, results = [], calls = []\<rparr>"

text \<open>
  A hit is resolvable in a state when the detail lookup by its id, issued then, resolves
  with an \<open>ok\<close> response whose body parses and says \<open>Response: True\<close>; the body is the
  record.
\<close>

definition resolvable :: "env \<Rightarrow> search_state \<Rightarrow> movie \<Rightarrow> movie option" where
  "resolvable e s hit =
     (case omdb_lookup e (length (calls s)) (ById (imdbID hit)) of
        Fetched True (Json d) \<Rightarrow> if Response d = Some ''True'' then Some d else None
      | _ \<Rightarrow> None)"

text \<open>
  The contract of the id-based detail lookup: a found record that answers the request for
  an id carries that id.
\<close>

definition detailsCarryRequestedId :: "env \<Rightarrow> bool" where
  "detailsCarryRequestedId e \<longleftrightarrow>
     (\<forall>n i d. omdb_lookup e n (ById i) = Fetched True (Json d) \<longrightarrow> Response d = Some ''True''
        \<longrightarrow> imdbID d = i)"

text \<open>
  Issuing a lookup and keeping its record under the rule of line 122: the record is kept
  when it is found and its own id is not in the seen set.
\<close>

definition ruleStep :: "env \<Rightarrow> search_state \<Rightarrow> omdb_request \<Rightarrow> search_state" where
  "ruleStep e s req =
     (case omdb_lookup e (length (calls s)) req of
        Fetched True (Json d) \<Rightarrow>
          if Response d = Some ''True'' \<and> imdbID d \<notin> seenMovies s
          then keep d (issue req s)
          else issue req s
      | _ \<Rightarrow> issue req s)"

text \<open>
  The fallback loop as the specification words it: a hit whose id is in the seen set is
  passed over, and the detail record of any other hit is kept under the rule of line 122.
\<close>

definition fallbackStepSameRule :: "env \<Rightarrow> search_state \<Rightarrow> movie \<Rightarrow> search_state" where
  "fallbackStepSameRule e s hit =
     (if imdbID hit \<in> seenMovies s then s else ruleStep e s (ById (imdbID hit)))"

definition fallbackLoopSameRule :: "env \<Rightarrow> movie list \<Rightarrow> search_state \<Rightarrow> search_state" where
  "fallbackLoopSameRule e hits s = foldl (fallbackStepSameRule e) s hits"

subsection \<open>Example runs\<close>

definition notFound :: movie where
  "notFound = \<lparr>Response = Some ''False'', imdbID = None, Title = None, Year = None, Poster = None\<rparr>"

definition anyFilters :: filters where
  "anyFilters = \<lparr>language = ''all'', genre = ''all'', year = ''all''\<rparr>"

text \<open>An environment with both keys, whose metadata replies do not depend on the time.\<close>

definition mkEnv ::
  "string option fetch_result \<Rightarrow> (omdb_request \<Rightarrow> movie fetch_result) \<Rightarrow> search_data fetch_result \<Rightarrow> env" where
  "mkEnv g l r =
     \<lparr>GEMINI_API_KEY = Some ''g-key'', OMDB_API_KEY = Some ''o-key'',
      gemini = (\<lambda>input fs. g), omdb_lookup = (\<lambda>n. l), omdb_search = (\<lambda>n req. r)\<rparr>"

text \<open>
  The generation API suggests \<open>Up, Toy Story 3, Up\<close>; the first title is found with a
  poster, the second without one.
\<close>

fun titleReplies :: "omdb_request \<Rightarrow> movie fetch_result" where
  "titleReplies (ByTitle t) =
     (if t = ''Up'' then Fetched True (Json (sampleMovie ''tt1'' ''2009'' ''p''))
      else if t = ''Toy Story 3'' then Fetched True (Json (sampleMovie ''tt2'' ''2010'' ''N/A''))
      else Fetched True (Json notFound))"
| "titleReplies (ById i) = Fetched True (Json notFound)"
| "titleReplies (BySearchMovie q) = Rejected ''Failed to fetch''"
| "titleReplies (BySearch q) = Rejected ''Failed to fetch''"

definition titlesEnv :: env where
  "titlesEnv =
     mkEnv (Fetched True (Json (Some ''Up, Toy Story 3, Up''))) titleReplies
       (Fetched True (Json \<lparr>SearchResponse = Some ''False'', Search = None\<rparr>))"

text \<open>
  No title is found; the keyword search has three hits, two of them with the same id, and
  each detail lookup answers with the record of the id requested.
\<close>

fun detailReplies :: "omdb_request \<Rightarrow> movie fetch_result" where
  "detailReplies (ById (Some i)) = Fetched True (Json (sampleMovie i ''1999'' ''p''))"
| "detailReplies (ById None) = Fetched True (Json notFound)"
| "detailReplies (ByTitle t) = Fetched True (Json notFound)"
| "detailReplies (BySearchMovie q) = Rejected ''Failed to fetch''"
| "detailReplies (BySearch q) = Rejected ''Failed to fetch''"

definition fallbackEnv :: env where
  "fallbackEnv =
     mkEnv (Fetched True (Json (Some ''Up''))) detailReplies
       (Fetched True (Json \<lparr>SearchResponse = Some ''True'',
          Search = Some [sampleMovie ''tt1'' ''1999'' ''p'', sampleMovie ''tt1'' ''1999'' ''p'',
                         sampleMovie ''tt2'' ''1999'' ''p'']\<rparr>))"

text \<open>
  No title is found; the keyword search has two hits with different ids, and every detail
  lookup answers with one and the same record, of a third id.
\<close>

fun sameDetailReplies :: "omdb_request \<Rightarrow> movie fetch_result" where
  "sameDetailReplies (ById i) = Fetched True (Json (sampleMovie ''tt9'' ''1999'' ''p''))"
| "sameDetailReplies (ByTitle t) = Fetched True (Json notFound)"
| "sameDetailReplies (BySearchMovie q) = Rejected ''Failed to fetch''"
| "sameDetailReplies (BySearch q) = Rejected ''Failed to fetch''"

definition sameDetailEnv :: env where
  "sameDetailEnv =
     mkEnv (Fetched True (Json (Some ''Up''))) sameDetailReplies
       (Fetched True (Json \<lparr>SearchResponse = Some ''True'',
          Search = Some [sampleMovie ''tt1'' ''1999'' ''p'', sampleMovie ''tt2'' ''1999'' ''p'']\<rparr>))"

text \<open>The generation API answers with a status that is not a success.\<close>

definition geminiDownEnv :: env where
  "geminiDownEnv =
     mkEnv (Fetched False (BadJson ''Unexpected token'')) titleReplies
       (Fetched True (Json \<lparr>SearchResponse = Some ''False'', Search = None\<rparr>))"

text \<open>A form that shows one movie from an earlier request, with the given input.\<close>

definition formWith :: "string \<Rightarrow> app_state" where
  "formWith input =
     \<lparr>userInput = input, filters = anyFilters, movies = [sampleMovie ''tt0'' ''1999'' ''p''],
      isLoading = False, error = None\<rparr>"

text \<open>
  The invariant of the two loops: the kept records have pairwise different ids, and each
  of these ids is in the seen set.
\<close>

definition distinctSeen :: "search_state \<Rightarrow> bool" where
  "distinctSeen s \<longleftrightarrow>
     distinct (map imdbID (results s)) \<and> imdbID ` set (results s) \<subseteq> seenMovies s"

text \<open>The keyword search is rejected by the network.\<close>

definition searchDownEnv :: env where
  "searchDownEnv = mkEnv (Fetched True (Json (Some ''Up''))) detailReplies (Rejected ''Failed to fetch'')"

text \<open>The generation API answers with a success whose body has no text.\<close>

definition noTextEnv :: env where
  "noTextEnv =
     mkEnv (Fetched True (Json None)) titleReplies
       (Fetched True (Json \<lparr>SearchResponse = Some ''False'', Search = None\<rparr>))"

section \<open>Properties of the year filter\<close>

lemma parseIntStr_examples:
  "parseIntStr ''N/A'' = None"
  "parseIntStr ''2015'' = Some 2015"
  "parseIntStr ''1975'' = Some 1975"
  "parseIntStr ''1999'' = Some 1999"
  by (simp_all add: parseIntStr_def radixDigit_def digitVal_def mathInt_def isWhiteSpace_def)

lemma parsedYearSatisfies_unparsed: "parseInt (Year m) = None \<Longrightarrow> \<not> parsedYearSatisfies P m"
  by (simp add: parsedYearSatisfies_def)

lemma yearMatches_2025: "yearMatches ''2025'' = parsedYearSatisfies (\<lambda>y. y = 2025)"
  by (rule ext) (simp add: yearMatches_def parsedYearSatisfies_def split: option.splits)

lemma yearMatches_2024: "yearMatches ''2024'' = parsedYearSatisfies (\<lambda>y. y = 2024)"
  by (rule ext) (simp add: yearMatches_def parsedYearSatisfies_def split: option.splits)

lemma yearMatches_2023: "yearMatches ''2023'' = parsedYearSatisfies (\<lambda>y. y = 2023)"
  by (rule ext) (simp add: yearMatches_def parsedYearSatisfies_def split: option.splits)

lemma yearMatches_2022: "yearMatches ''2022'' = parsedYearSatisfies (\<lambda>y. y = 2022)"
  by (rule ext) (simp add: yearMatches_def parsedYearSatisfies_def split: option.splits)

lemma yearMatches_2021: "yearMatches ''2021'' = parsedYearSatisfies (\<lambda>y. y = 2021)"
  by (rule ext) (simp add: yearMatches_def parsedYearSatisfies_def split: option.splits)

lemma yearMatches_2020: "yearMatches ''2020'' = parsedYearSatisfies (\<lambda>y. y = 2020)"
  by (rule ext) (simp add: yearMatches_def parsedYearSatisfies_def split: option.splits)

lemma yearMatches_2010s:
  "yearMatches ''2010s'' = parsedYearSatisfies (\<lambda>y. 2010 \<le> y \<and> y \<le> 2019)"
  by (rule ext) (simp add: yearMatches_def parsedYearSatisfies_def split: option.splits)

lemma yearMatches_2000s:
  "yearMatches ''2000s'' = parsedYearSatisfies (\<lambda>y. 2000 \<le> y \<and> y \<le> 2009)"
  by (rule ext) (simp add: yearMatches_def parsedYearSatisfies_def split: option.splits)

lemma yearMatches_1990s:
  "yearMatches ''1990s'' = parsedYearSatisfies (\<lambda>y. 1990 \<le> y \<and> y \<le> 1999)"
  by (rule ext) (simp add: yearMatches_def parsedYearSatisfies_def split: option.splits)

lemma yearMatches_1980s:
  "yearMatches ''1980s'' = parsedYearSatisfies (\<lambda>y. 1980 \<le> y \<and> y \<le> 1989)"
  by (rule ext) (simp add: yearMatches_def parsedYearSatisfies_def split: option.splits)

lemma yearMatches_classic: "yearMatches ''classic'' = parsedYearSatisfies (\<lambda>y. y < 1980)"
  by (rule ext) (simp add: yearMatches_def parsedYearSatisfies_def split: option.splits)

lemma yearMatches_unrecognized:
  assumes "\<not> recognized b"
  shows "yearMatches b = parsedYearSatisfies (\<lambda>y. True)"
proof -
  have "b \<noteq> ''2025''" "b \<noteq> ''2024''" "b \<noteq> ''2023''" "b \<noteq> ''2022''" "b \<noteq> ''2021''"
    "b \<noteq> ''2020''" "b \<noteq> ''2010s''" "b \<noteq> ''2000s''" "b \<noteq> ''1990s''" "b \<noteq> ''1980s''"
    "b \<noteq> ''classic''"
    using assms unfolding recognized_def by simp_all
  then show ?thesis
    by (intro ext) (simp add: yearMatches_def parsedYearSatisfies_def split: option.splits)
qed

text \<open>
  C2. On every record list, \<open>filterMoviesByYear\<close> with the bucket \<open>all\<close> returns the list
  itself, and with each other bucket of the form it keeps, in order, exactly the records
  whose year field parses as an integer that satisfies the bucket's predicate: equality
  for the exact years 2020 to 2025, the inclusive decade for \<open>2010s\<close>, \<open>2000s\<close>, \<open>1990s\<close>
  and \<open>1980s\<close>, and a year below 1980 for \<open>classic\<close>. A record whose year does not parse
  is among none of them.
\<close>

theorem filterMoviesByYear_buckets:
  "filterMoviesByYear ms ''all'' = ms
   \<and> filterMoviesByYear ms ''2025'' = filter (parsedYearSatisfies (\<lambda>y. y = 2025)) ms
   \<and> filterMoviesByYear ms ''2024'' = filter (parsedYearSatisfies (\<lambda>y. y = 2024)) ms
   \<and> filterMoviesByYear ms ''2023'' = filter (parsedYearSatisfies (\<lambda>y. y = 2023)) ms
   \<and> filterMoviesByYear ms ''2022'' = filter (parsedYearSatisfies (\<lambda>y. y = 2022)) ms
   \<and> filterMoviesByYear ms ''2021'' = filter (parsedYearSatisfies (\<lambda>y. y = 2021)) ms
   \<and> filterMoviesByYear ms ''2020'' = filter (parsedYearSatisfies (\<lambda>y. y = 2020)) ms
   \<and> filterMoviesByYear ms ''2010s'' = filter (parsedYearSatisfies (\<lambda>y. 2010 \<le> y \<and> y \<le> 2019)) ms
   \<and> filterMoviesByYear ms ''2000s'' = filter (parsedYearSatisfies (\<lambda>y. 2000 \<le> y \<and> y \<le> 2009)) ms
   \<and> filterMoviesByYear ms ''1990s'' = filter (parsedYearSatisfies (\<lambda>y. 1990 \<le> y \<and> y \<le> 1999)) ms
   \<and> filterMoviesByYear ms ''1980s'' = filter (parsedYearSatisfies (\<lambda>y. 1980 \<le> y \<and> y \<le> 1989)) ms
   \<and> filterMoviesByYear ms ''classic'' = filter (parsedYearSatisfies (\<lambda>y. y < 1980)) ms"
  unfolding filterMoviesByYear_def
  by (simp add: yearMatches_2025 yearMatches_2024 yearMatches_2023 yearMatches_2022
      yearMatches_2021 yearMatches_2020 yearMatches_2010s yearMatches_2000s yearMatches_1990s
      yearMatches_1980s yearMatches_classic)

text \<open>C2 on three records, of the years 2015 and 1975 and of an unparsable year.\<close>

theorem filterMoviesByYear_buckets_witness:
  "filterMoviesByYear
     [sampleMovie ''tt1'' ''2015'' ''p'', sampleMovie ''tt2'' ''1975'' ''p'',
      sampleMovie ''tt3'' ''N/A'' ''p''] ''2010s''
   = [sampleMovie ''tt1'' ''2015'' ''p'']
   \<and> filterMoviesByYear
     [sampleMovie ''tt1'' ''2015'' ''p'', sampleMovie ''tt2'' ''1975'' ''p'',
      sampleMovie ''tt3'' ''N/A'' ''p''] ''classic''
   = [sampleMovie ''tt2'' ''1975'' ''p'']"
  using filterMoviesByYear_buckets
    [of "[sampleMovie ''tt1'' ''2015'' ''p'', sampleMovie ''tt2'' ''1975'' ''p'',
          sampleMovie ''tt3'' ''N/A'' ''p'']"]
  by (simp add: parsedYearSatisfies_def sampleMovie_def parseIntStr_examples)

text \<open>
  C5, as the specification states it, fails: with a bucket the switch does not name, a
  record whose year does not parse is dropped, because the test for \<open>NaN\<close> comes before the
  switch.
\<close>

theorem filterMoviesByYear_unrecognized_counterexample:
  "\<not> recognized ''2019''
   \<and> filterMoviesByYear [sampleMovie ''tt3'' ''N/A'' ''p''] ''2019''
     \<noteq> [sampleMovie ''tt3'' ''N/A'' ''p'']"
  by (simp add: recognized_def filterMoviesByYear_def yearMatches_def sampleMovie_def
      parseIntStr_examples)

text \<open>
  C5, amended. With a bucket that is not one of the form's, \<open>filterMoviesByYear\<close> keeps, in
  order and unchanged, exactly the records whose year field parses as an integer, whatever
  the integer; it drops those whose year does not parse.
\<close>

theorem filterMoviesByYear_unrecognized:
  assumes "\<not> recognized b"
  shows "filterMoviesByYear ms b = filter (parsedYearSatisfies (\<lambda>y. True)) ms"
proof -
  have "b \<noteq> ''all''"
    using assms unfolding recognized_def by simp
  then show ?thesis
    by (simp add: filterMoviesByYear_def yearMatches_unrecognized [OF assms])
qed

text \<open>C5, amended, on the bucket \<open>2019\<close>, which the switch does not name.\<close>

theorem filterMoviesByYear_unrecognized_witness:
  "\<not> recognized ''2019''
   \<and> filterMoviesByYear
       [sampleMovie ''tt1'' ''2015'' ''p'', sampleMovie ''tt3'' ''N/A'' ''p''] ''2019''
     = [sampleMovie ''tt1'' ''2015'' ''p'']"
proof -
  have h: "\<not> recognized ''2019''"
    by (simp add: recognized_def)
  show ?thesis
    using h filterMoviesByYear_unrecognized
      [OF h, of "[sampleMovie ''tt1'' ''2015'' ''p'', sampleMovie ''tt3'' ''N/A'' ''p'']"]
    by (simp add: parsedYearSatisfies_def sampleMovie_def parseIntStr_examples)
qed

text \<open>
  C8. For every record list and every bucket value, filtering twice with the same bucket
  gives the same list as filtering once.
\<close>

theorem filterMoviesByYear_idempotent:
  "filterMoviesByYear (filterMoviesByYear ms b) b = filterMoviesByYear ms b"
  by (simp add: filterMoviesByYear_def)

text \<open>C8 on the bucket \<open>classic\<close>.\<close>

theorem filterMoviesByYear_idempotent_witness:
  "filterMoviesByYear
     (filterMoviesByYear [sampleMovie ''tt1'' ''2015'' ''p'', sampleMovie ''tt2'' ''1975'' ''p''] ''classic'')
     ''classic''
   = [sampleMovie ''tt2'' ''1975'' ''p'']"
  using filterMoviesByYear_idempotent
    [of "[sampleMovie ''tt1'' ''2015'' ''p'', sampleMovie ''tt2'' ''1975'' ''p'']" "''classic''"]
  by (simp add: filterMoviesByYear_def yearMatches_def sampleMovie_def parseIntStr_examples)

section \<open>Properties of the title extraction\<close>

lemma split_comma_nonempty: "split_comma s \<noteq> []"
  by (induction s) (auto split: list.splits)

text \<open>The pieces, joined by commas, are the text; and no piece holds a comma.\<close>

lemma split_comma_join: "joinComma (split_comma s) = s"
proof (induction s)
  case Nil
  show ?case by simp
next
  case (Cons c cs)
  obtain q ps where X: "split_comma cs = q # ps"
    using split_comma_nonempty [of cs] by (cases "split_comma cs") auto
  show ?case
    using Cons X by (cases ps) auto
qed

lemma split_comma_no_comma: "p \<in> set (split_comma s) \<Longrightarrow> CHR '','' \<notin> set p"
proof (induction s arbitrary: p)
  case Nil
  then show ?case by simp
next
  case (Cons c cs)
  obtain q ps where X: "split_comma cs = q # ps"
    using split_comma_nonempty [of cs] by (cases "split_comma cs") auto
  show ?case
    using Cons X by (auto split: if_splits)
qed

text \<open>
  C6. When the generation API answers with a non-empty text, the candidate titles are the
  pieces of the text between its commas (the comma-free strings whose join by commas is
  the text), each trimmed, without the empty ones, in the order of the text; a title that
  occurs twice is kept twice.
\<close>

theorem candidate_titles:
  assumes "\<not> falsy (GEMINI_API_KEY e)"
    and "gemini e input fs = Fetched True (Json (Some t))"
    and "t \<noteq> []"
  shows "fst (getAiSuggestions e input fs) = Inr (filter (\<lambda>p. p \<noteq> []) (map trim (split_comma t)))
         \<and> joinComma (split_comma t) = t
         \<and> (\<forall>p\<in>set (split_comma t). CHR '','' \<notin> set p)"
  using assms by (simp add: getAiSuggestions_def split_comma_join split_comma_no_comma)

text \<open>C6 on the text \<open>Up, Toy Story 3, Up\<close>: three titles, the repeated one twice.\<close>

theorem candidate_titles_witness:
  "\<not> falsy (GEMINI_API_KEY titlesEnv)
   \<and> gemini titlesEnv ''mood'' anyFilters = Fetched True (Json (Some ''Up, Toy Story 3, Up''))
   \<and> fst (getAiSuggestions titlesEnv ''mood'' anyFilters) = Inr [''Up'', ''Toy Story 3'', ''Up'']"
proof -
  have k: "\<not> falsy (GEMINI_API_KEY titlesEnv)"
    and g: "gemini titlesEnv ''mood'' anyFilters = Fetched True (Json (Some ''Up, Toy Story 3, Up''))"
    by (simp_all add: titlesEnv_def mkEnv_def)
  have t: "''Up, Toy Story 3, Up'' \<noteq> []"
    by simp
  show ?thesis
    using k g candidate_titles [OF k g t]
    by (simp add: trim_def isWhiteSpace_def)
qed

section \<open>Properties of the control flow of \<open>searchMoviesWithOMDb\<close>\<close>

lemma tryBlock_returns_or_throws:
  "(\<exists>s. tryBlock e titles input fs = returnFiltered fs s)
   \<or> (\<exists>err s. tryBlock e titles input fs = (Throw err, s))"
  unfolding tryBlock_def fallbackSearch_def Let_def
  by (auto split: fetch_result.splits body.splits option.splits)

lemma tryCatch_returns_or_throws:
  "(\<exists>s. tryCatch e titles input fs = returnFiltered fs s)
   \<or> (\<exists>s. tryCatch e titles input fs
         = (Throw (Error ''Failed to search for movies. Please try again later.''), s))"
  using tryBlock_returns_or_throws [of e titles input fs]
  unfolding tryCatch_def returnFiltered_def by auto

lemma searchBody_any_rest: "searchBody rest e titles input fs = tryCatch e titles input fs"
  using tryCatch_returns_or_throws [of e titles input fs]
  unfolding searchBody_def returnFiltered_def by auto

lemmas run_defs =
  searchMoviesWithOMDb_def searchMoviesWithOMDb_trimmed_def searchBody_def tryCatch_def
  tryBlock_def fallbackSearch_def titleLoop_def titleStep_def fallbackLoop_def fallbackStep_def
  returnFiltered_def issue_def keep_def filterMoviesByYear_def mkEnv_def anyFilters_def
  sampleMovie_def notFound_def initialSearch_def Let_def

text \<open>
  C9. The \<open>try\<close> statement of \<open>searchMoviesWithOMDb\<close> never completes normally: the function
  returns at line 159 or throws from the \<open>catch\<close> block. So whatever statements follow the
  \<open>try\<close> statement, the function is the same: with lines 165-185 as they are, with these
  lines deleted, or with anything else in their place.
\<close>

theorem trailing_block_unreachable:
  "fst (tryCatch e titles input fs) \<noteq> Normal
   \<and> searchBody rest e titles input fs = searchMoviesWithOMDb e titles input fs
   \<and> searchMoviesWithOMDb_trimmed e titles input fs = searchMoviesWithOMDb e titles input fs
   \<and> ((\<exists>s. searchMoviesWithOMDb e titles input fs = returnFiltered fs s)
      \<or> (\<exists>s. searchMoviesWithOMDb e titles input fs
            = (Throw (Error ''Failed to search for movies. Please try again later.''), s)))"
proof -
  have "fst (tryCatch e titles input fs) \<noteq> Normal"
    using tryCatch_returns_or_throws [of e titles input fs]
    unfolding returnFiltered_def by auto
  moreover have "searchMoviesWithOMDb e titles input fs = tryCatch e titles input fs"
    unfolding searchMoviesWithOMDb_def by (rule searchBody_any_rest)
  moreover have "searchMoviesWithOMDb_trimmed e titles input fs = tryCatch e titles input fs"
    unfolding searchMoviesWithOMDb_trimmed_def by (rule searchBody_any_rest)
  ultimately show ?thesis
    using tryCatch_returns_or_throws [of e titles input fs]
    by (simp add: searchBody_any_rest)
qed

text \<open>C9 on a run in which one of three titles is kept.\<close>

theorem trailing_block_unreachable_witness:
  "searchMoviesWithOMDb_trimmed titlesEnv [''Up'', ''Toy Story 3'', ''Up''] ''mood'' anyFilters
   = searchMoviesWithOMDb titlesEnv [''Up'', ''Toy Story 3'', ''Up''] ''mood'' anyFilters
   \<and> fst (searchMoviesWithOMDb titlesEnv [''Up'', ''Toy Story 3'', ''Up''] ''mood'' anyFilters)
     = Return [sampleMovie ''tt1'' ''2009'' ''p'']"
  using trailing_block_unreachable
    [of titlesEnv "[''Up'', ''Toy Story 3'', ''Up'']" "''mood''" anyFilters]
  by (simp add: run_defs titlesEnv_def)

section \<open>The metadata requests of a run\<close>

lemma calls_titleStep: "calls (titleStep e s t) = calls s @ [ByTitle t]"
  by (simp add: titleStep_def issue_def keep_def split: fetch_result.splits body.splits)

lemma calls_titleLoop: "calls (titleLoop e ts s) = calls s @ map ByTitle ts"
  unfolding titleLoop_def
  by (induction ts arbitrary: s) (simp_all add: calls_titleStep)

lemma calls_fallbackStep:
  "calls (fallbackStep e s hit)
   = calls s @ (if imdbID hit \<in> seenMovies s then [] else [ById (imdbID hit)])"
  by (simp add: fallbackStep_def issue_def keep_def split: fetch_result.splits body.splits)

lemma searches_fallbackLoop:
  "filter isKeywordSearch (calls (fallbackLoop e hits s)) = filter isKeywordSearch (calls s)"
  unfolding fallbackLoop_def
  by (induction hits arbitrary: s) (simp_all add: calls_fallbackStep)

lemma searches_titleLoop: "filter isKeywordSearch (calls (titleLoop e ts initialSearch)) = []"
  by (simp add: calls_titleLoop initialSearch_def filter_empty_conv)

lemma snd_tryCatch: "snd (tryCatch e titles input fs) = snd (tryBlock e titles input fs)"
  unfolding tryCatch_def by (auto split: prod.splits completion.splits)

lemma searches_fallbackSearch:
  "filter isKeywordSearch (calls (snd (fallbackSearch e input fs s)))
   = filter isKeywordSearch (calls s) @ [BySearchMovie input]"
  unfolding fallbackSearch_def returnFiltered_def
  by (simp add: issue_def searches_fallbackLoop
      split: fetch_result.splits body.splits option.splits)

lemma searches_tryBlock:
  assumes "\<not> falsy (OMDB_API_KEY e)"
  shows "filter isKeywordSearch (calls (snd (tryBlock e titles input fs)))
         = (if results (titleLoop e titles initialSearch) = [] then [BySearchMovie input] else [])"
  using assms unfolding tryBlock_def Let_def initialSearch_def [symmetric]
  by (simp add: searches_fallbackSearch searches_titleLoop returnFiltered_def)

lemma fallbackLoop_snoc:
  "fallbackLoop e (pre @ [hit]) t = fallbackStep e (fallbackLoop e pre t) hit"
  by (simp add: fallbackLoop_def)

lemma fallbackStep_seen: "imdbID hit \<in> seenMovies s \<Longrightarrow> fallbackStep e s hit = s"
  by (simp add: fallbackStep_def)

lemma fallbackStep_unseen:
  "imdbID hit \<notin> seenMovies s \<Longrightarrow>
   fallbackStep e s hit
   = (case resolvable e s hit of
        None \<Rightarrow> issue (ById (imdbID hit)) s
      | Some d \<Rightarrow> keep d (issue (ById (imdbID hit)) s))"
  by (simp add: fallbackStep_def resolvable_def
      split: fetch_result.splits body.splits bool.splits)

lemma fallback_taken:
  assumes "\<not> falsy (OMDB_API_KEY e)"
    and "results (titleLoop e titles initialSearch) = []"
    and "omdb_search e (length titles) (BySearchMovie input)
         = Fetched True (Json \<lparr>SearchResponse = Some ''True'', Search = Some hits\<rparr>)"
  shows "searchMoviesWithOMDb e titles input fs
         = returnFiltered fs
             (fallbackLoop e hits (issue (BySearchMovie input) (titleLoop e titles initialSearch)))"
proof -
  have len: "length (calls (titleLoop e titles initialSearch)) = length titles"
    by (simp add: calls_titleLoop initialSearch_def)
  have "tryBlock e titles input fs
        = returnFiltered fs
            (fallbackLoop e hits (issue (BySearchMovie input) (titleLoop e titles initialSearch)))"
    using assms unfolding tryBlock_def Let_def initialSearch_def [symmetric]
    by (simp add: fallbackSearch_def len)
  then show ?thesis
    unfolding searchMoviesWithOMDb_def searchBody_any_rest tryCatch_def returnFiltered_def
    by simp
qed

lemma searches_tryBlock_any:
  "filter isKeywordSearch (calls (snd (tryBlock e titles input fs)))
   = (if \<not> falsy (OMDB_API_KEY e) \<and> results (titleLoop e titles initialSearch) = []
      then [BySearchMovie input] else [])"
proof (cases "falsy (OMDB_API_KEY e)")
  case True
  then show ?thesis
    by (simp add: tryBlock_def)
next
  case False
  then show ?thesis
    by (simp add: searches_tryBlock)
qed

lemma titleStep_ruleStep: "titleStep e s title = ruleStep e s (ByTitle title)"
  unfolding titleStep_def ruleStep_def
  by (simp split: fetch_result.splits body.splits bool.splits)

lemma fallbackStep_sameRule:
  assumes "detailsCarryRequestedId e"
  shows "fallbackStep e s hit = fallbackStepSameRule e s hit"
proof (cases "imdbID hit \<in> seenMovies s")
  case True
  then show ?thesis
    by (simp add: fallbackStep_def fallbackStepSameRule_def)
next
  case False
  have "imdbID d = imdbID hit"
    if "omdb_lookup e (length (calls s)) (ById (imdbID hit)) = Fetched True (Json d)"
      and "Response d = Some ''True''" for d
    using assms that unfolding detailsCarryRequestedId_def by blast
  with False show ?thesis
    unfolding fallbackStep_def fallbackStepSameRule_def ruleStep_def
    by (auto split: fetch_result.splits body.splits bool.splits)
qed

lemma fallbackLoop_sameRule:
  "detailsCarryRequestedId e \<Longrightarrow> fallbackLoop e hits s = fallbackLoopSameRule e hits s"
  unfolding fallbackLoop_def fallbackLoopSameRule_def
  by (induction hits arbitrary: s) (simp_all add: fallbackStep_sameRule)

text \<open>
  C4, as the specification states it, fails in its last clause. The loop over the titles
  keeps a record only if the record's own id is not in the seen set (line 122); the
  fallback loop tests the id of the hit before the lookup (line 141) and keeps the record
  the lookup resolves to without testing that record's id (lines 146-148). With the hits
  \<open>tt1\<close> and \<open>tt2\<close> and detail lookups that both answer with the record \<open>tt9\<close>, the
  second record is kept although its id is in the seen set; under the rule of line 122 it
  would be dropped.
\<close>

theorem fallback_same_rule_counterexample:
  "imdbID (sampleMovie ''tt2'' ''1999'' ''p'')
     \<notin> seenMovies (fallbackLoop sameDetailEnv [sampleMovie ''tt1'' ''1999'' ''p''] initialSearch)
   \<and> resolvable sameDetailEnv
       (fallbackLoop sameDetailEnv [sampleMovie ''tt1'' ''1999'' ''p''] initialSearch)
       (sampleMovie ''tt2'' ''1999'' ''p'')
     = Some (sampleMovie ''tt9'' ''1999'' ''p'')
   \<and> imdbID (sampleMovie ''tt9'' ''1999'' ''p'')
     \<in> seenMovies (fallbackLoop sameDetailEnv [sampleMovie ''tt1'' ''1999'' ''p''] initialSearch)
   \<and> results (fallbackLoop sameDetailEnv
        [sampleMovie ''tt1'' ''1999'' ''p'', sampleMovie ''tt2'' ''1999'' ''p''] initialSearch)
     = [sampleMovie ''tt9'' ''1999'' ''p'', sampleMovie ''tt9'' ''1999'' ''p'']
   \<and> results (fallbackLoopSameRule sameDetailEnv
        [sampleMovie ''tt1'' ''1999'' ''p'', sampleMovie ''tt2'' ''1999'' ''p''] initialSearch)
     = [sampleMovie ''tt9'' ''1999'' ''p'']"
  by (simp add: run_defs sameDetailEnv_def resolvable_def fallbackLoopSameRule_def
      fallbackStepSameRule_def ruleStep_def)

text \<open>
  C4, amended. The keyword search with the raw mood text is the only keyword search of a
  run; it is issued once when the metadata key is present and the loop over the titles
  kept no record, and not at all otherwise. When that search finds hits, the run goes
  through them in order from the state the title loop left: a hit whose id is in the seen
  set changes nothing and causes no request; for a hit whose id is not in the seen set, one
  detail lookup by that id is issued, and the record it resolves to, if any, is kept and its
  id joins the seen set. The loop over the titles keeps a record under the rule of line 122;
  the fallback loop keeps its records under that same rule provided that every found record
  answering a detail lookup by id carries the id requested.
\<close>

theorem fallback_search_once:
  "filter isKeywordSearch (calls (snd (searchMoviesWithOMDb e titles input fs)))
     = (if \<not> falsy (OMDB_API_KEY e) \<and> results (titleLoop e titles initialSearch) = []
        then [BySearchMovie input] else [])
   \<and> (\<not> falsy (OMDB_API_KEY e) \<and> results (titleLoop e titles initialSearch) = []
        \<and> omdb_search e (length titles) (BySearchMovie input)
          = Fetched True (Json \<lparr>SearchResponse = Some ''True'', Search = Some hits\<rparr>)
      \<longrightarrow> searchMoviesWithOMDb e titles input fs
          = returnFiltered fs
              (fallbackLoop e hits (issue (BySearchMovie input) (titleLoop e titles initialSearch))))
   \<and> (imdbID hit \<in> seenMovies (fallbackLoop e pre t)
      \<longrightarrow> fallbackLoop e (pre @ [hit]) t = fallbackLoop e pre t)
   \<and> (imdbID hit \<notin> seenMovies (fallbackLoop e pre t)
      \<longrightarrow> fallbackLoop e (pre @ [hit]) t
          = (case resolvable e (fallbackLoop e pre t) hit of
               None \<Rightarrow> issue (ById (imdbID hit)) (fallbackLoop e pre t)
             | Some d \<Rightarrow> keep d (issue (ById (imdbID hit)) (fallbackLoop e pre t))))
   \<and> titleStep e t title = ruleStep e t (ByTitle title)
   \<and> (detailsCarryRequestedId e \<longrightarrow> fallbackLoop e hits t = fallbackLoopSameRule e hits t)"
proof -
  have "filter isKeywordSearch (calls (snd (searchMoviesWithOMDb e titles input fs)))
        = (if \<not> falsy (OMDB_API_KEY e) \<and> results (titleLoop e titles initialSearch) = []
           then [BySearchMovie input] else [])"
    unfolding searchMoviesWithOMDb_def searchBody_any_rest snd_tryCatch
    by (rule searches_tryBlock_any)
  moreover have "titleStep e t title = ruleStep e t (ByTitle title)"
    by (rule titleStep_ruleStep)
  ultimately show ?thesis
    using fallback_taken [of e titles input hits fs]
    by (simp add: fallbackLoop_snoc fallbackStep_seen fallbackStep_unseen fallbackLoop_sameRule)
qed

lemma fallbackEnv_run:
  "searchMoviesWithOMDb fallbackEnv [''Up''] ''mood'' anyFilters
   = (Return [sampleMovie ''tt1'' ''1999'' ''p'', sampleMovie ''tt2'' ''1999'' ''p''],
      \<lparr>seenMovies = {Some ''tt1'', Some ''tt2''},
       results = [sampleMovie ''tt1'' ''1999'' ''p'', sampleMovie ''tt2'' ''1999'' ''p''],
       calls = [ByTitle ''Up'', BySearchMovie ''mood'', ById (Some ''tt1''), ById (Some ''tt2'')]\<rparr>)"
  by (simp add: run_defs fallbackEnv_def insert_commute)

lemma fallbackEnv_details: "detailsCarryRequestedId fallbackEnv"
  unfolding detailsCarryRequestedId_def fallbackEnv_def mkEnv_def
proof (intro allI impI)
  fix n :: nat and i :: "string option" and d :: movie
  assume "omdb_lookup
            \<lparr>GEMINI_API_KEY = Some ''g-key'', OMDB_API_KEY = Some ''o-key'',
             gemini = \<lambda>input fs. Fetched True (Json (Some ''Up'')),
             omdb_lookup = \<lambda>n. detailReplies,
             omdb_search = \<lambda>n req. Fetched True (Json \<lparr>SearchResponse = Some ''True'',
               Search = Some [sampleMovie ''tt1'' ''1999'' ''p'', sampleMovie ''tt1'' ''1999'' ''p'',
                              sampleMovie ''tt2'' ''1999'' ''p'']\<rparr>)\<rparr>
            n (ById i) = Fetched True (Json d)"
    and "Response d = Some ''True''"
  then show "imdbID d = i"
    by (cases i) (auto simp: sampleMovie_def notFound_def)
qed

text \<open>
  C4, amended, on two runs: one in which no title is found and the search has the hits
  \<open>tt1\<close>, \<open>tt1\<close>, \<open>tt2\<close>, each detail lookup answering with the record of the id
  requested (one search, two detail lookups, two records kept), and one in which a title is
  found (no search).
\<close>

theorem fallback_search_once_witness:
  "\<not> falsy (OMDB_API_KEY fallbackEnv)
   \<and> results (titleLoop fallbackEnv [''Up''] initialSearch) = []
   \<and> calls (snd (searchMoviesWithOMDb fallbackEnv [''Up''] ''mood'' anyFilters))
     = [ByTitle ''Up'', BySearchMovie ''mood'', ById (Some ''tt1''), ById (Some ''tt2'')]
   \<and> filter isKeywordSearch (calls (snd (searchMoviesWithOMDb fallbackEnv [''Up''] ''mood'' anyFilters)))
     = [BySearchMovie ''mood'']
   \<and> filter isKeywordSearch (calls (snd (searchMoviesWithOMDb titlesEnv [''Up''] ''mood'' anyFilters)))
     = []
   \<and> detailsCarryRequestedId fallbackEnv
   \<and> fallbackLoop fallbackEnv
       [sampleMovie ''tt1'' ''1999'' ''p'', sampleMovie ''tt1'' ''1999'' ''p'',
        sampleMovie ''tt2'' ''1999'' ''p''] initialSearch
     = fallbackLoopSameRule fallbackEnv
       [sampleMovie ''tt1'' ''1999'' ''p'', sampleMovie ''tt1'' ''1999'' ''p'',
        sampleMovie ''tt2'' ''1999'' ''p''] initialSearch
   \<and> results (fallbackLoopSameRule fallbackEnv
       [sampleMovie ''tt1'' ''1999'' ''p'', sampleMovie ''tt1'' ''1999'' ''p'',
        sampleMovie ''tt2'' ''1999'' ''p''] initialSearch)
     = [sampleMovie ''tt1'' ''1999'' ''p'', sampleMovie ''tt2'' ''1999'' ''p'']"
proof -
  have k: "\<not> falsy (OMDB_API_KEY fallbackEnv)" "\<not> falsy (OMDB_API_KEY titlesEnv)"
    by (simp_all add: fallbackEnv_def titlesEnv_def mkEnv_def)
  have r: "results (titleLoop fallbackEnv [''Up''] initialSearch) = []"
    "results (titleLoop titlesEnv [''Up''] initialSearch) \<noteq> []"
    by (simp_all add: run_defs fallbackEnv_def titlesEnv_def)
  have l: "results (fallbackLoopSameRule fallbackEnv
       [sampleMovie ''tt1'' ''1999'' ''p'', sampleMovie ''tt1'' ''1999'' ''p'',
        sampleMovie ''tt2'' ''1999'' ''p''] initialSearch)
     = [sampleMovie ''tt1'' ''1999'' ''p'', sampleMovie ''tt2'' ''1999'' ''p'']"
    by (simp add: run_defs fallbackEnv_def fallbackLoopSameRule_def fallbackStepSameRule_def
        ruleStep_def)
  show ?thesis
    using k r l fallbackEnv_run fallbackEnv_details
      fallback_search_once [where e = fallbackEnv and titles = "[''Up'']" and input = "''mood''"
        and fs = anyFilters and t = initialSearch
        and hits = "[sampleMovie ''tt1'' ''1999'' ''p'', sampleMovie ''tt1'' ''1999'' ''p'',
          sampleMovie ''tt2'' ''1999'' ''p'']"]
      fallback_search_once [where e = titlesEnv and titles = "[''Up'']" and input = "''mood''"
        and fs = anyFilters]
    by simp
qed

section \<open>The returned records\<close>

lemma distinctSeen_titleStep: "distinctSeen s \<Longrightarrow> distinctSeen (titleStep e s t)"
  unfolding distinctSeen_def titleStep_def issue_def keep_def
  by (auto split: fetch_result.splits body.splits)

lemma distinctSeen_titleLoop: "distinctSeen s \<Longrightarrow> distinctSeen (titleLoop e ts s)"
  unfolding titleLoop_def
  by (induction ts arbitrary: s) (simp_all add: distinctSeen_titleStep)

lemma distinctSeen_fallbackStep:
  assumes "detailsCarryRequestedId e" and "distinctSeen s"
  shows "distinctSeen (fallbackStep e s hit)"
proof (cases "imdbID hit \<in> seenMovies s")
  case True
  then show ?thesis
    using assms(2) by (simp add: fallbackStep_seen)
next
  case False
  show ?thesis
  proof (cases "resolvable e s hit")
    case None
    then show ?thesis
      using False assms(2) by (simp add: fallbackStep_unseen distinctSeen_def issue_def)
  next
    case (Some d)
    then have "omdb_lookup e (length (calls s)) (ById (imdbID hit)) = Fetched True (Json d)"
      and "Response d = Some ''True''"
      unfolding resolvable_def
      by (auto split: fetch_result.splits body.splits bool.splits if_splits)
    then have "imdbID d = imdbID hit"
      using assms(1) unfolding detailsCarryRequestedId_def by blast
    then show ?thesis
      using False Some assms(2)
      by (auto simp: fallbackStep_unseen distinctSeen_def issue_def keep_def)
  qed
qed

lemma distinctSeen_fallbackLoop:
  "detailsCarryRequestedId e \<Longrightarrow> distinctSeen s \<Longrightarrow> distinctSeen (fallbackLoop e hits s)"
  unfolding fallbackLoop_def
  by (induction hits arbitrary: s) (simp_all add: distinctSeen_fallbackStep)

lemma distinctSeen_issue: "distinctSeen (issue r s) = distinctSeen s"
  by (simp add: distinctSeen_def issue_def)

lemma distinctSeen_initial: "distinctSeen initialSearch"
  by (simp add: distinctSeen_def initialSearch_def)

lemma returnFiltered_posters:
  "returnFiltered fs s = (Return ms, s') \<Longrightarrow> \<forall>m\<in>set ms. Poster m \<noteq> Some ''N/A''"
  unfolding returnFiltered_def filterMoviesByYear_def by (auto split: if_splits)

lemma returnFiltered_distinct:
  "returnFiltered fs s = (Return ms, s') \<Longrightarrow> distinctSeen s \<Longrightarrow> distinct (map imdbID ms)"
  unfolding returnFiltered_def filterMoviesByYear_def distinctSeen_def
  by (auto split: if_splits simp: distinct_map_filter)

lemma tryBlock_state:
  assumes "tryBlock e titles input fs = (Return ms, s)"
  shows "\<exists>s1. returnFiltered fs s1 = (Return ms, s)
              \<and> (detailsCarryRequestedId e \<or> results (titleLoop e titles initialSearch) \<noteq> []
                  \<longrightarrow> distinctSeen s1)"
  using assms unfolding tryBlock_def Let_def initialSearch_def [symmetric] fallbackSearch_def
  by (auto split: if_splits fetch_result.splits body.splits option.splits
      simp: distinctSeen_titleLoop distinctSeen_initial distinctSeen_issue
        distinctSeen_fallbackLoop)

text \<open>
  C1, as the specification states it, fails. No title is found, the keyword search has two
  hits with the ids \<open>tt1\<close> and \<open>tt2\<close>, and both detail lookups answer with a record whose id
  is \<open>tt9\<close>: the fallback loop tests the id of the hit, not the id of the record it keeps,
  and the returned list holds the record twice.
\<close>

theorem returned_records_distinct_counterexample:
  "fst (searchMoviesWithOMDb sameDetailEnv [''Up''] ''mood'' anyFilters)
     = Return [sampleMovie ''tt9'' ''1999'' ''p'', sampleMovie ''tt9'' ''1999'' ''p'']
   \<and> \<not> distinct (map imdbID
         (returned (fst (searchMoviesWithOMDb sameDetailEnv [''Up''] ''mood'' anyFilters))))"
  by (simp add: run_defs sameDetailEnv_def)

text \<open>
  C1, amended. In every run of \<open>searchMoviesWithOMDb\<close> that returns, no returned record has
  the poster \<open>N/A\<close>; and no two returned records have the same id, provided that the loop
  over the titles kept a record or that every found record answering a detail lookup by id
  carries the id requested.
\<close>

theorem returned_records_distinct:
  assumes "searchMoviesWithOMDb e titles input fs = (Return ms, s)"
  shows "(\<forall>m\<in>set ms. Poster m \<noteq> Some ''N/A'')
         \<and> (detailsCarryRequestedId e \<or> results (titleLoop e titles initialSearch) \<noteq> []
            \<longrightarrow> distinct (map imdbID ms))"
proof -
  have "tryCatch e titles input fs = (Return ms, s)"
    using assms unfolding searchMoviesWithOMDb_def searchBody_any_rest .
  then have "tryBlock e titles input fs = (Return ms, s)"
    unfolding tryCatch_def by (auto split: prod.splits completion.splits)
  then obtain s1 where "returnFiltered fs s1 = (Return ms, s)"
    and "detailsCarryRequestedId e \<or> results (titleLoop e titles initialSearch) \<noteq> []
         \<longrightarrow> distinctSeen s1"
    using tryBlock_state by blast
  then show ?thesis
    using returnFiltered_posters returnFiltered_distinct by blast
qed

text \<open>
  C1, amended, on a run through the fallback whose hits are \<open>tt1\<close>, \<open>tt1\<close>, \<open>tt2\<close> and
  whose detail lookups answer with the record of the id requested.
\<close>

theorem returned_records_distinct_witness:
  "detailsCarryRequestedId fallbackEnv
   \<and> fst (searchMoviesWithOMDb fallbackEnv [''Up''] ''mood'' anyFilters)
     = Return [sampleMovie ''tt1'' ''1999'' ''p'', sampleMovie ''tt2'' ''1999'' ''p'']
   \<and> distinct (map imdbID [sampleMovie ''tt1'' ''1999'' ''p'', sampleMovie ''tt2'' ''1999'' ''p''])
   \<and> Poster (sampleMovie ''tt1'' ''1999'' ''p'') \<noteq> Some ''N/A''
   \<and> Poster (sampleMovie ''tt2'' ''1999'' ''p'') \<noteq> Some ''N/A''"
  using returned_records_distinct [OF fallbackEnv_run] fallbackEnv_details fallbackEnv_run
  by simp

section \<open>Properties of the submit handler\<close>

lemma trim_empty_iff: "trim s = [] \<longleftrightarrow> (\<forall>c\<in>set s. isWhiteSpace c)"
proof
  assume "trim s = []"
  then have all: "\<forall>c\<in>set (dropWhile isWhiteSpace s). isWhiteSpace c"
    unfolding trim_def by simp
  have "dropWhile isWhiteSpace s = []"
  proof (rule ccontr)
    assume ne: "dropWhile isWhiteSpace s \<noteq> []"
    then have "\<not> isWhiteSpace (hd (dropWhile isWhiteSpace s))"
      by (rule hd_dropWhile)
    moreover have "hd (dropWhile isWhiteSpace s) \<in> set (dropWhile isWhiteSpace s)"
      using ne by (rule hd_in_set)
    ultimately show False
      using all by blast
  qed
  then show "\<forall>c\<in>set s. isWhiteSpace c"
    by simp
next
  assume "\<forall>c\<in>set s. isWhiteSpace c"
  then have d: "dropWhile isWhiteSpace s = []"
    by simp
  show "trim s = []"
    unfolding trim_def d by simp
qed

text \<open>
  C10. When the input is empty or holds white space only, submitting the form sets the
  validation message and changes nothing else: \<open>movies\<close> and \<open>isLoading\<close> are as before,
  and no network call is issued.
\<close>

theorem blank_input_rejected:
  assumes "\<forall>c\<in>set (userInput st). isWhiteSpace c"
  shows "handleMovieSuggestion e st
         = (st\<lparr>error := Some ''Please describe your movie mood or scenario.''\<rparr>, [])"
  using assms by (simp add: handleMovieSuggestion_def trim_empty_iff)

text \<open>C10 on the input of a space and a tab, in a form that shows a movie.\<close>

theorem blank_input_rejected_witness:
  "isWhiteSpace (CHR '' '') \<and> isWhiteSpace (CHR 0x09)
   \<and> handleMovieSuggestion titlesEnv (formWith [CHR '' '', CHR 0x09])
     = ((formWith [CHR '' '', CHR 0x09])
          \<lparr>error := Some ''Please describe your movie mood or scenario.''\<rparr>, [])
   \<and> movies (fst (handleMovieSuggestion titlesEnv (formWith [CHR '' '', CHR 0x09])))
     = [sampleMovie ''tt0'' ''1999'' ''p'']"
proof -
  have h: "\<forall>c\<in>set (userInput (formWith [CHR '' '', CHR 0x09])). isWhiteSpace c"
    by (simp add: formWith_def isWhiteSpace_def)
  show ?thesis
    using blank_input_rejected [OF h, of titlesEnv]
    by (simp add: isWhiteSpace_def formWith_def)
qed

text \<open>
  C3. When the generation API answers with a status that is not a success, or with a body
  whose text is empty or absent, \<open>getAiSuggestions\<close> throws (the message says which of the
  two, unless the key is missing, which is reported first), and the handler issues no
  metadata request: its only network call, if any, is the one to the generation API.
\<close>

theorem upstream_error_no_metadata_calls:
  assumes "gemini e (userInput st) (filters st) = Fetched ok b"
    and "\<not> ok \<or> (\<exists>txt. b = Json txt \<and> falsy txt)"
  shows "fst (getAiSuggestions e (userInput st) (filters st))
           = Inl (Error (if falsy (GEMINI_API_KEY e)
                         then ''Gemini API key is missing. Please check your environment variables.''
                         else if \<not> ok then ''Failed to get suggestions from the AI service.''
                         else ''The AI returned an empty response. Please try again.''))
         \<and> snd (handleMovieSuggestion e st)
           = (if trim (userInput st) = [] \<or> falsy (GEMINI_API_KEY e) then []
              else [GeminiCall (userInput st) (filters st)])"
  using assms
  by (auto simp: handleMovieSuggestion_def getAiSuggestions_def Let_def split: prod.splits)

text \<open>C3 on a failing status, and on a success without text.\<close>

theorem upstream_error_no_metadata_calls_witness:
  "gemini geminiDownEnv ''mood'' anyFilters = Fetched False (BadJson ''Unexpected token'')
   \<and> fst (getAiSuggestions geminiDownEnv ''mood'' anyFilters)
     = Inl (Error ''Failed to get suggestions from the AI service.'')
   \<and> snd (handleMovieSuggestion geminiDownEnv (formWith ''mood'')) = [GeminiCall ''mood'' anyFilters]
   \<and> gemini noTextEnv ''mood'' anyFilters = Fetched True (Json None)
   \<and> fst (getAiSuggestions noTextEnv ''mood'' anyFilters)
     = Inl (Error ''The AI returned an empty response. Please try again.'')
   \<and> snd (handleMovieSuggestion noTextEnv (formWith ''mood'')) = [GeminiCall ''mood'' anyFilters]"
proof -
  have g: "gemini geminiDownEnv (userInput (formWith ''mood'')) (filters (formWith ''mood''))
           = Fetched False (BadJson ''Unexpected token'')"
    by (simp add: geminiDownEnv_def mkEnv_def)
  have c: "\<not> False \<or> (\<exists>txt. BadJson ''Unexpected token'' = Json txt \<and> falsy txt)"
    by simp
  have g': "gemini noTextEnv (userInput (formWith ''mood'')) (filters (formWith ''mood''))
            = Fetched True (Json None)"
    by (simp add: noTextEnv_def mkEnv_def)
  have c': "\<not> True \<or> (\<exists>txt. Json None = Json txt \<and> falsy txt)"
    by simp
  show ?thesis
    using g g' upstream_error_no_metadata_calls [OF g c]
      upstream_error_no_metadata_calls [OF g' c']
    by (simp add: formWith_def geminiDownEnv_def noTextEnv_def mkEnv_def trim_def
        isWhiteSpace_def)
qed

text \<open>
  C7. When the input is not blank and an error is thrown to the \<open>catch\<close> of the handler, by
  \<open>getAiSuggestions\<close> or by \<open>searchMoviesWithOMDb\<close>, the handler ends with an empty
  \<open>movies\<close> list, the error's message displayed and \<open>isLoading\<close> false.
\<close>

theorem error_clears_movies:
  assumes "trim (userInput st) \<noteq> []"
    and "getAiSuggestions e (userInput st) (filters st) = (Inl err, tr)
         \<or> (\<exists>ts. getAiSuggestions e (userInput st) (filters st) = (Inr ts, tr)
                 \<and> fst (searchMoviesWithOMDb e ts (userInput st) (filters st)) = Throw err)"
  shows "movies (fst (handleMovieSuggestion e st)) = []
         \<and> error (fst (handleMovieSuggestion e st)) = Some (errorText err)
         \<and> isLoading (fst (handleMovieSuggestion e st)) = False"
  using assms
  by (auto simp: handleMovieSuggestion_def failed_def Let_def
      split: prod.splits completion.splits)

text \<open>
  C7 on a form that shows a movie: once with the generation API failing, once with the
  keyword search rejected after no title was found.
\<close>

theorem error_clears_movies_witness:
  "trim ''mood'' \<noteq> []
   \<and> movies (formWith ''mood'') = [sampleMovie ''tt0'' ''1999'' ''p'']
   \<and> movies (fst (handleMovieSuggestion geminiDownEnv (formWith ''mood''))) = []
   \<and> error (fst (handleMovieSuggestion geminiDownEnv (formWith ''mood'')))
     = Some ''Failed to get suggestions from the AI service.''
   \<and> fst (searchMoviesWithOMDb searchDownEnv [''Up''] ''mood'' anyFilters)
     = Throw (Error ''Failed to search for movies. Please try again later.'')
   \<and> movies (fst (handleMovieSuggestion searchDownEnv (formWith ''mood''))) = []
   \<and> error (fst (handleMovieSuggestion searchDownEnv (formWith ''mood'')))
     = Some ''Failed to search for movies. Please try again later.''"
proof -
  have t: "trim (userInput (formWith ''mood'')) \<noteq> []"
    by (simp add: formWith_def trim_def isWhiteSpace_def)
  have g: "getAiSuggestions geminiDownEnv (userInput (formWith ''mood'')) (filters (formWith ''mood''))
           = (Inl (Error ''Failed to get suggestions from the AI service.''),
              [GeminiCall ''mood'' anyFilters])"
    by (simp add: getAiSuggestions_def geminiDownEnv_def mkEnv_def formWith_def)
  have g': "getAiSuggestions searchDownEnv (userInput (formWith ''mood'')) (filters (formWith ''mood''))
            = (Inr [''Up''], [GeminiCall ''mood'' anyFilters])"
    by (simp add: getAiSuggestions_def searchDownEnv_def mkEnv_def formWith_def trim_def
        isWhiteSpace_def)
  have s': "fst (searchMoviesWithOMDb searchDownEnv [''Up''] (userInput (formWith ''mood''))
                   (filters (formWith ''mood'')))
            = Throw (Error ''Failed to search for movies. Please try again later.'')"
    by (simp add: run_defs searchDownEnv_def formWith_def)
  have d': "getAiSuggestions searchDownEnv (userInput (formWith ''mood'')) (filters (formWith ''mood''))
              = (Inl (Error ''Failed to search for movies. Please try again later.''),
                 [GeminiCall ''mood'' anyFilters])
            \<or> (\<exists>ts. getAiSuggestions searchDownEnv (userInput (formWith ''mood''))
                       (filters (formWith ''mood''))
                     = (Inr ts, [GeminiCall ''mood'' anyFilters])
                   \<and> fst (searchMoviesWithOMDb searchDownEnv ts (userInput (formWith ''mood''))
                            (filters (formWith ''mood'')))
                     = Throw (Error ''Failed to search for movies. Please try again later.''))"
    using g' s' by simp
  show ?thesis
    using t s' error_clears_movies [OF t disjI1, OF g] error_clears_movies [OF t d']
    by (simp add: formWith_def errorText_def)
qed

end
